theory Spec2Isabelle
  imports Complex_Main
begin

section \<open>Data model (src/app/src/types)\<close>

text \<open>
  The TypeScript unions of string literals are datatypes, the interfaces are records.
  An optional field \<open>f?: T\<close> is a field of type \<open>T option\<close>, \<open>None\<close> standing for
  \<open>undefined\<close>. Record fields are global names in HOL, so the fields \<open>id\<close>, \<open>x\<close>, \<open>y\<close>,
  \<open>row\<close>, \<open>col\<close>, \<open>type\<close>, \<open>status\<close>, \<open>notes\<close> and \<open>label\<close> carry a prefix naming their interface;
  all other fields keep the name they have in the source. JavaScript numbers holding
  coordinates are \<open>real\<close>; numbers holding counters, grid indices and millisecond
  timestamps (\<open>Date.now()\<close>) are \<open>int\<close>.
\<close>

datatype CellStatus = untested | ok | faulty | ghost

datatype SessionType = grid | ghost_monitor | multi_touch

datatype SessionStatus = active | completed | cancelled

datatype HardwareZone =
    digitizer_top
  | digitizer_bottom
  | digitizer_left_edge
  | digitizer_right_edge
  | lcd_connector
  | battery_connector
  | front_camera_flex
  | home_button_flex
  | full_digitizer

datatype Severity = low | medium | high

record TouchPoint =
  tp_id :: string
  tp_x :: real
  tp_y :: real
  timestamp :: int
  pressure :: "real option"
  isGhost :: "bool option"

record GridCell =
  cell_row :: int
  cell_col :: int
  cell_status :: CellStatus
  touchCount :: int
  lastTouched :: "int option"

record FaultyArea =
  fa_id :: string
  fa_label :: string
  xPercent :: real
  yPercent :: real
  widthPercent :: real
  heightPercent :: real
  severity :: Severity
  hardwareZone :: "HardwareZone option"

record DiagnosticSession =
  session_id :: string
  session_type :: SessionType
  session_status :: SessionStatus
  startedAt :: int
  endedAt :: "int option"
  touchPoints :: "TouchPoint list"
  gridCells :: "GridCell list option"
  faultyAreas :: "FaultyArea list option"
  session_notes :: "string option"
  deviceModel :: "string option"

text \<open>
  Failure is a value. The names \<open>NoActiveSession\<close>, \<open>OutOfBounds\<close>, \<open>SessionNotFound\<close>,
  \<open>PersistenceFailure\<close> and \<open>NotConfigured\<close> are the error kinds of the specification;
  \<open>RangeError\<close> and \<open>TypeError\<close> are the exceptions the JavaScript engine itself raises
  (an invalid array length, a property read on \<open>undefined\<close>); \<open>IndexOutOfRange\<close> marks a
  write outside an array, which JavaScript does not reject. A function of the source
  that can be asked whether it fails returns \<open>error + 'a\<close>, with \<open>Inl\<close> for a thrown
  exception or a rejected promise and \<open>Inr\<close> for a normal return.
\<close>

datatype error =
    NoActiveSession
  | OutOfBounds
  | SessionNotFound
  | PersistenceFailure
  | NotConfigured
  | RangeError
  | TypeError
  | IndexOutOfRange

section \<open>Configuration constants (src/app/src/constants/index.ts)\<close>

definition GRID_ROWS :: int where
  "GRID_ROWS = 10"

definition GRID_COLS :: int where
  "GRID_COLS = 6"

section \<open>Local database (src/app/src/services/database.ts)\<close>

text \<open>
  The SQLite engine is an external library. A table is the list of its rows in rowid
  order, which is insertion order, and the columns are those of \<open>initDatabase\<close>. The
  columns \<open>type\<close> and \<open>status\<close> hold the string literals of the TypeScript unions; they
  are read back with a type cast only, so the model stores the datatype's value. Input
  and output failures of the storage engine are outside the model. \<open>initDatabase\<close> does
  not switch foreign keys on (\<open>PRAGMA foreign_keys\<close>), so SQLite does not enforce the
  \<open>REFERENCES\<close> clauses and no delete cascades. The table \<open>ghost_events\<close> is touched by
  none of the functions below and is left out.
\<close>

record SessionRow =
  s_id :: string
  s_type :: SessionType
  s_status :: SessionStatus
  started_at :: int
  ended_at :: "int option"
  s_notes :: "string option"
  device_model :: "string option"
  synced :: int

record TouchPointRow =
  t_id :: string
  t_session_id :: string
  t_x :: real
  t_y :: real
  t_timestamp :: int
  t_pressure :: "real option"
  is_ghost :: int

record Database =
  sessions_table :: "SessionRow list"
  touch_points_table :: "TouchPointRow list"

text \<open>
  \<open>INSERT OR REPLACE\<close> on a table whose only uniqueness constraint is the primary key
  \<open>id\<close>: the row that holds the same key, if any, is deleted, and the new row is
  inserted with a fresh, largest rowid, that is, at the end of the table.
\<close>

definition insertOrReplace :: "('r \<Rightarrow> string) \<Rightarrow> 'r \<Rightarrow> 'r list \<Rightarrow> 'r list" where
  "insertOrReplace key r tbl = filter (\<lambda>r'. key r' \<noteq> key r) tbl @ [r]"

text \<open>
  The values bound to the two \<open>INSERT\<close> statements of \<open>saveSession\<close>; the column
  \<open>synced\<close> is not listed there and takes its default 0.
\<close>

definition sessionRow :: "DiagnosticSession \<Rightarrow> SessionRow" where
  "sessionRow session =
     \<lparr> s_id = session_id session,
       s_type = session_type session,
       s_status = session_status session,
       started_at = startedAt session,
       ended_at = endedAt session,
       s_notes = session_notes session,
       device_model = deviceModel session,
       synced = 0 \<rparr>"

definition touchPointRow :: "string \<Rightarrow> TouchPoint \<Rightarrow> TouchPointRow" where
  "touchPointRow sid tp =
     \<lparr> t_id = tp_id tp,
       t_session_id = sid,
       t_x = tp_x tp,
       t_y = tp_y tp,
       t_timestamp = timestamp tp,
       t_pressure = pressure tp,
       is_ghost = (if isGhost tp = Some True then 1 else 0) \<rparr>"

text \<open>The loop \<open>for (const tp of session.touchPoints)\<close> of \<open>saveSession\<close>.\<close>

fun insertTouchPoints :: "string \<Rightarrow> TouchPoint list \<Rightarrow> TouchPointRow list \<Rightarrow> TouchPointRow list" where
  "insertTouchPoints sid [] tbl = tbl"
| "insertTouchPoints sid (tp # tps) tbl =
     insertTouchPoints sid tps (insertOrReplace t_id (touchPointRow sid tp) tbl)"

definition saveSession :: "DiagnosticSession \<Rightarrow> Database \<Rightarrow> Database" where
  "saveSession session db =
     (let db1 = db\<lparr>sessions_table := insertOrReplace s_id (sessionRow session) (sessions_table db)\<rparr>
      in if length (touchPoints session) > 0
         then db1\<lparr>touch_points_table :=
                    insertTouchPoints (session_id session) (touchPoints session) (touch_points_table db1)\<rparr>
         else db1)"

text \<open>
  \<open>SELECT * FROM sessions ORDER BY started_at DESC\<close>. SQL leaves the order of rows with
  equal keys open; the model keeps them in table order.
\<close>

definition getSessions :: "Database \<Rightarrow> DiagnosticSession list" where
  "getSessions db =
     map (\<lambda>r. \<lparr> session_id = s_id r,
                session_type = s_type r,
                session_status = s_status r,
                startedAt = started_at r,
                endedAt = ended_at r,
                touchPoints = [],
                gridCells = None,
                faultyAreas = Some [],
                session_notes = s_notes r,
                deviceModel = device_model r \<rparr>)
         (sort_key (\<lambda>r. - started_at r) (sessions_table db))"

text \<open>The callback of \<open>tpRows.map\<close> in \<open>getSessionById\<close>.\<close>

definition touchPointOfRow :: "TouchPointRow \<Rightarrow> TouchPoint" where
  "touchPointOfRow t =
     \<lparr> tp_id = t_id t,
       tp_x = t_x t,
       tp_y = t_y t,
       timestamp = t_timestamp t,
       pressure = t_pressure t,
       isGhost = Some (is_ghost t = 1) \<rparr>"

text \<open>
  \<open>SELECT * FROM touch_points WHERE session_id = ?\<close> has no \<open>ORDER BY\<close>; the engine
  walks the index on \<open>session_id\<close>, whose entries for one session are in rowid order.
\<close>

definition getSessionById :: "string \<Rightarrow> Database \<Rightarrow> DiagnosticSession option" where
  "getSessionById ident db =
     (case find (\<lambda>r. s_id r = ident) (sessions_table db) of
        None \<Rightarrow> None
      | Some row \<Rightarrow>
          (let tpRows = filter (\<lambda>t. t_session_id t = ident) (touch_points_table db);
               touchPoints = map touchPointOfRow tpRows
           in Some \<lparr> session_id = s_id row,
                     session_type = s_type row,
                     session_status = s_status row,
                     startedAt = started_at row,
                     endedAt = ended_at row,
                     touchPoints = touchPoints,
                     gridCells = None,
                     faultyAreas = Some [],
                     session_notes = s_notes row,
                     deviceModel = device_model row \<rparr>))"

section \<open>Session store (store/useSessionStore)\<close>

text \<open>
  The zustand store is a record, and an action is a function from the state before to
  the state after. \<open>Date.now()\<close> and \<open>generateId()\<close> read the clock and the random source:
  their results are arguments \<open>now\<close> and \<open>newId\<close> of the action. The source of the store
  has no \<open>throw\<close>; its actions return through \<open>Inr\<close> on every path. An \<open>async\<close> action is
  modelled as running to completion without another event in between.
\<close>

record SessionState =
  sessions :: "DiagnosticSession list"
  activeSession :: "DiagnosticSession option"
  isLoading :: bool

definition initialState :: SessionState where
  "initialState = \<lparr> sessions = [], activeSession = None, isLoading = False \<rparr>"

text \<open>
  The two nested \<open>for\<close> loops of \<open>buildEmptyGrid\<close> push one untested cell per row and
  column, row by row.
\<close>

definition emptyCell :: "int \<Rightarrow> int \<Rightarrow> GridCell" where
  "emptyCell r c =
     \<lparr> cell_row = r, cell_col = c, cell_status = untested, touchCount = 0, lastTouched = None \<rparr>"

definition buildEmptyGrid :: "GridCell list" where
  "buildEmptyGrid =
     concat (map (\<lambda>r. map (\<lambda>c. emptyCell r c) [0..GRID_COLS - 1]) [0..GRID_ROWS - 1])"

definition startSession ::
  "string \<Rightarrow> int \<Rightarrow> SessionType \<Rightarrow> string option \<Rightarrow> SessionState
     \<Rightarrow> error + (DiagnosticSession \<times> SessionState)" where
  "startSession newId now ty dm s =
     (let session =
            \<lparr> session_id = newId,
              session_type = ty,
              session_status = active,
              startedAt = now,
              endedAt = None,
              touchPoints = [],
              gridCells = (if ty = grid then Some buildEmptyGrid else None),
              faultyAreas = Some [],
              session_notes = None,
              deviceModel = dm \<rparr>
      in Inr (session, s\<lparr>activeSession := Some session\<rparr>))"

definition endSession ::
  "int \<Rightarrow> string option \<Rightarrow> Database \<Rightarrow> SessionState \<Rightarrow> error + (Database \<times> SessionState)" where
  "endSession now nts db s =
     (case activeSession s of
        None \<Rightarrow> Inr (db, s)
      | Some a \<Rightarrow>
          (let done = a\<lparr>session_status := completed, endedAt := Some now, session_notes := nts\<rparr>;
               db' = saveSession done db
           in Inr (db', s\<lparr>activeSession := None, sessions := done # sessions s\<rparr>)))"

definition cancelSession :: "SessionState \<Rightarrow> error + SessionState" where
  "cancelSession s = Inr (s\<lparr>activeSession := None\<rparr>)"

definition recordTouch :: "string \<Rightarrow> TouchPoint \<Rightarrow> SessionState \<Rightarrow> error + SessionState" where
  "recordTouch newId point s =
     (case activeSession s of
        None \<Rightarrow> Inr s
      | Some a \<Rightarrow>
          (let tp = point\<lparr>tp_id := newId\<rparr>
           in Inr (s\<lparr>activeSession := Some (a\<lparr>touchPoints := touchPoints a @ [tp]\<rparr>)\<rparr>)))"

text \<open>The callback of \<open>gridCells.map\<close> in \<open>markCellStatus\<close>.\<close>

definition markCell :: "int \<Rightarrow> int \<Rightarrow> int \<Rightarrow> CellStatus \<Rightarrow> GridCell \<Rightarrow> GridCell" where
  "markCell now row col st cell =
     (if cell_row cell = row \<and> cell_col cell = col
      then cell\<lparr>cell_status := st, touchCount := touchCount cell + 1, lastTouched := Some now\<rparr>
      else cell)"

definition markCellStatus ::
  "int \<Rightarrow> int \<Rightarrow> int \<Rightarrow> CellStatus \<Rightarrow> SessionState \<Rightarrow> error + SessionState" where
  "markCellStatus now row col st s =
     (case activeSession s of
        None \<Rightarrow> Inr s
      | Some a \<Rightarrow>
          (case gridCells a of
             None \<Rightarrow> Inr s
           | Some cells \<Rightarrow>
               (let updatedCells = map (markCell now row col st) cells
                in Inr (s\<lparr>activeSession := Some (a\<lparr>gridCells := Some updatedCells\<rparr>)\<rparr>))))"

section \<open>Grid test screen (GridTestScreen, \<open>handleCellPress\<close>)\<close>

text \<open>
  The component's state is its two flags and the store it subscribes to. The array
  \<open>gridCells\<close> that the callback closes over is the one of the latest render,
  \<open>activeSession?.gridCells ?? []\<close>, read here from the store at the time of the press.
\<close>

record GridTestScreen =
  started :: bool
  finished :: bool
  store :: SessionState

definition renderedGridCells :: "SessionState \<Rightarrow> GridCell list" where
  "renderedGridCells s =
     (case activeSession s of
        None \<Rightarrow> []
      | Some a \<Rightarrow> (case gridCells a of None \<Rightarrow> [] | Some cells \<Rightarrow> cells))"

definition findCell :: "int \<Rightarrow> int \<Rightarrow> GridCell list \<Rightarrow> GridCell option" where
  "findCell row col cells = find (\<lambda>c. cell_row c = row \<and> cell_col c = col) cells"

text \<open>The press changes the store only; the flags of the screen stay.\<close>

definition withStore :: "GridTestScreen \<Rightarrow> error + SessionState \<Rightarrow> error + GridTestScreen" where
  "withStore scr res = (case res of Inl e \<Rightarrow> Inl e | Inr s \<Rightarrow> Inr (scr\<lparr>store := s\<rparr>))"

definition handleCellPress :: "int \<Rightarrow> int \<Rightarrow> int \<Rightarrow> GridTestScreen \<Rightarrow> error + GridTestScreen" where
  "handleCellPress now row col scr =
     (if \<not> started scr \<or> finished scr then Inr scr
      else (case findCell row col (renderedGridCells (store scr)) of
              None \<Rightarrow> Inr scr
            | Some cell \<Rightarrow>
                if cell_status cell = ok
                then withStore scr (markCellStatus now row col faulty (store scr))
                else withStore scr (markCellStatus now row col ok (store scr))))"

section \<open>Hardware zone of a grid cell (GridTestScreen, \<open>zoneForCell\<close>)\<close>

definition zoneForCell :: "int \<Rightarrow> int \<Rightarrow> int \<Rightarrow> int \<Rightarrow> HardwareZone" where
  "zoneForCell row col totalRows totalCols =
     (let isTop = row < 2;
          isBottom = row \<ge> totalRows - 2;
          isLeft = (col = 0);
          isRight = (col = totalCols - 1)
      in if isTop then digitizer_top
         else if isBottom then digitizer_bottom
         else if isLeft then digitizer_left_edge
         else if isRight then digitizer_right_edge
         else lcd_connector)"

section \<open>Heatmap aggregation (src/app/src/screens/HeatmapScreen.tsx, \<open>buildHeatCells\<close>)\<close>














section \<open>Invariant of the grid and concrete states\<close>

text \<open>
  Every cell of a grid session lies inside the grid, and the heatmap's grid keeps the
  dimensions it was allocated with. The concrete sessions, screens and points below are
  the inputs at which the theorems are instantiated.
\<close>

definition cellsInBounds :: "GridCell list \<Rightarrow> bool" where
  "cellsInBounds cells =
     list_all (\<lambda>c. 0 \<le> cell_row c \<and> cell_row c < GRID_ROWS \<and> 0 \<le> cell_col c \<and> cell_col c < GRID_COLS) cells"


definition emptyDatabase :: Database where
  "emptyDatabase = \<lparr> sessions_table = [], touch_points_table = [] \<rparr>"

definition gridSession :: DiagnosticSession where
  "gridSession =
     \<lparr> session_id = ''g1'', session_type = grid, session_status = active, startedAt = 1000,
       endedAt = None, touchPoints = [], gridCells = Some buildEmptyGrid, faultyAreas = Some [],
       session_notes = None, deviceModel = None \<rparr>"

definition gridScreen :: GridTestScreen where
  "gridScreen =
     \<lparr> started = True, finished = False,
       store = \<lparr> sessions = [], activeSession = Some gridSession, isLoading = False \<rparr> \<rparr>"

definition tappedGrid :: "GridCell list" where
  "tappedGrid = map (markCell 2500 0 0 faulty) (map (markCell 2000 0 0 ok) buildEmptyGrid)"

definition tappedScreen :: GridTestScreen where
  "tappedScreen =
     \<lparr> started = True, finished = False,
       store = \<lparr> sessions = [],
                 activeSession = Some (gridSession\<lparr>gridCells := Some tappedGrid\<rparr>),
                 isLoading = False \<rparr> \<rparr>"

definition ghostPoint :: TouchPoint where
  "ghostPoint =
     \<lparr> tp_id = ''p1'', tp_x = 120, tp_y = 300, timestamp = 1500, pressure = None,
       isGhost = Some True \<rparr>"

definition monitorSession :: DiagnosticSession where
  "monitorSession =
     \<lparr> session_id = ''m1'', session_type = ghost_monitor, session_status = active, startedAt = 1000,
       endedAt = None, touchPoints = [ghostPoint], gridCells = None, faultyAreas = Some [],
       session_notes = None, deviceModel = None \<rparr>"

definition monitorState :: SessionState where
  "monitorState = \<lparr> sessions = [], activeSession = Some monitorSession, isLoading = False \<rparr>"




definition finishedGridSession :: DiagnosticSession where
  "finishedGridSession =
     gridSession\<lparr> session_status := completed, endedAt := Some 3000,
       gridCells := Some tappedGrid,
       faultyAreas := Some [\<lparr> fa_id = ''f1'', fa_label = ''Cell (0,0)'', xPercent = 0, yPercent = 0,
                              widthPercent = 100 / 6, heightPercent = 10, severity = medium,
                              hardwareZone = Some digitizer_top \<rparr>] \<rparr>"

section \<open>Properties of the zone mapping\<close>

text \<open>
  Claim C5. For every row in [0, totalRows) and col in [0, totalCols), zoneForCell
  follows the ordered rule: rows 0 and 1 give digitizer_top; otherwise rows totalRows-2 and
  totalRows-1 give digitizer_bottom; otherwise column 0 gives digitizer_left_edge; otherwise
  column totalCols-1 gives digitizer_right_edge; otherwise lcd_connector. The top and
  bottom tests come before the left and right tests, so the corner cell (0, 0) is
  digitizer_top and not digitizer_left_edge.
\<close>

theorem zoneForCell_ordered_rule:
  assumes "0 \<le> row" and "row < totalRows" and "0 \<le> col" and "col < totalCols"
  shows "zoneForCell row col totalRows totalCols =
           (if row = 0 \<or> row = 1 then digitizer_top
            else if row = totalRows - 2 \<or> row = totalRows - 1 then digitizer_bottom
            else if col = 0 then digitizer_left_edge
            else if col = totalCols - 1 then digitizer_right_edge
            else lcd_connector)
         \<and> (zoneForCell 0 0 totalRows totalCols = digitizer_top)
         \<and> (zoneForCell 0 0 totalRows totalCols \<noteq> digitizer_left_edge)"
proof -
  have top: "row < 2 \<longleftrightarrow> row = 0 \<or> row = 1"
    using assms(1) by arith
  have bottom: "row \<ge> totalRows - 2 \<longleftrightarrow> row = totalRows - 2 \<or> row = totalRows - 1"
    using assms(2) by arith
  show ?thesis
    unfolding zoneForCell_def Let_def top bottom by simp
qed

theorem zoneForCell_ordered_rule_witness:
  "zoneForCell 0 0 GRID_ROWS GRID_COLS = digitizer_top
   \<and> zoneForCell 1 5 GRID_ROWS GRID_COLS = digitizer_top
   \<and> zoneForCell 8 0 GRID_ROWS GRID_COLS = digitizer_bottom
   \<and> zoneForCell 9 5 GRID_ROWS GRID_COLS = digitizer_bottom
   \<and> zoneForCell 4 0 GRID_ROWS GRID_COLS = digitizer_left_edge
   \<and> zoneForCell 4 5 GRID_ROWS GRID_COLS = digitizer_right_edge
   \<and> zoneForCell 4 3 GRID_ROWS GRID_COLS = lcd_connector
   \<and> zoneForCell 1 0 3 1 = digitizer_top"
  using zoneForCell_ordered_rule [of 0 GRID_ROWS 0 GRID_COLS]
    zoneForCell_ordered_rule [of 1 GRID_ROWS 5 GRID_COLS]
    zoneForCell_ordered_rule [of 8 GRID_ROWS 0 GRID_COLS]
    zoneForCell_ordered_rule [of 9 GRID_ROWS 5 GRID_COLS]
    zoneForCell_ordered_rule [of 4 GRID_ROWS 0 GRID_COLS]
    zoneForCell_ordered_rule [of 4 GRID_ROWS 5 GRID_COLS]
    zoneForCell_ordered_rule [of 4 GRID_ROWS 3 GRID_COLS]
    zoneForCell_ordered_rule [of 1 3 0 1]
  by (simp add: GRID_ROWS_def GRID_COLS_def)

section \<open>Properties of the session store and of the grid test\<close>

lemma in_buildEmptyGrid:
  "x \<in> set buildEmptyGrid \<longleftrightarrow>
     (\<exists>r c. 0 \<le> r \<and> r < GRID_ROWS \<and> 0 \<le> c \<and> c < GRID_COLS \<and> x = emptyCell r c)"
proof -
  have "set buildEmptyGrid = (\<Union>r \<in> {0..GRID_ROWS - 1}. emptyCell r ` {0..GRID_COLS - 1})"
    unfolding buildEmptyGrid_def by (simp only: set_concat set_map set_upto image_image)
  then show ?thesis
    by (simp only: UN_iff image_iff atLeastAtMost_iff Bex_def) force
qed

lemma cellsInBounds_buildEmptyGrid: "cellsInBounds buildEmptyGrid"
proof -
  have "0 \<le> cell_row c \<and> cell_row c < GRID_ROWS \<and> 0 \<le> cell_col c \<and> cell_col c < GRID_COLS"
    if "c \<in> set buildEmptyGrid" for c
  proof -
    from that have "\<exists>r k. 0 \<le> r \<and> r < GRID_ROWS \<and> 0 \<le> k \<and> k < GRID_COLS \<and> c = emptyCell r k"
      by (simp only: in_buildEmptyGrid)
    then obtain r k where "0 \<le> r" "r < GRID_ROWS" "0 \<le> k" "k < GRID_COLS" "c = emptyCell r k"
      by blast
    then show ?thesis by (simp add: emptyCell_def)
  qed
  then show ?thesis
    unfolding cellsInBounds_def list_all_iff by (rule ballI)
qed

lemma markCell_coords:
  "cell_row (markCell now row col st c) = cell_row c \<and> cell_col (markCell now row col st c) = cell_col c"
  by (simp add: markCell_def)

lemma cellsInBounds_markCell:
  "cellsInBounds cells \<Longrightarrow> cellsInBounds (map (markCell now row col st) cells)"
  by (simp add: cellsInBounds_def list_all_iff markCell_coords)

lemma map_markCell_no_match:
  "\<forall>c \<in> set cells. \<not> (cell_row c = row \<and> cell_col c = col) \<Longrightarrow>
     map (markCell now row col st) cells = cells"
  by (induction cells) (auto simp: markCell_def)

lemma find_map_markCell:
  "find (\<lambda>c. cell_row c = row \<and> cell_col c = col) (map (markCell now row col st) cells) =
     map_option (markCell now row col st) (find (\<lambda>c. cell_row c = row \<and> cell_col c = col) cells)"
  by (induction cells) (auto simp: markCell_def)

lemma find_unique:
  "x \<in> set xs \<Longrightarrow> P x \<Longrightarrow> (\<forall>y \<in> set xs. P y \<longrightarrow> y = x) \<Longrightarrow> find P xs = Some x"
proof (induction xs)
  case Nil
  then show ?case by simp
next
  case (Cons a xs)
  show ?case
  proof (cases "P a")
    case True
    with Cons.prems(3) have "a = x" by simp
    with True show ?thesis by simp
  next
    case False
    with Cons.prems(1,2) have "x \<in> set xs" by auto
    moreover from Cons.prems(3) have "\<forall>y \<in> set xs. P y \<longrightarrow> y = x" by simp
    ultimately have "find P xs = Some x"
      using Cons.IH Cons.prems(2) by blast
    with False show ?thesis by simp
  qed
qed

lemma findCell_buildEmptyGrid:
  assumes "0 \<le> row" and "row < GRID_ROWS" and "0 \<le> col" and "col < GRID_COLS"
  shows "findCell row col buildEmptyGrid = Some (emptyCell row col)"
  unfolding findCell_def
proof (rule find_unique)
  have "\<exists>r k. 0 \<le> r \<and> r < GRID_ROWS \<and> 0 \<le> k \<and> k < GRID_COLS \<and> emptyCell row col = emptyCell r k"
    using assms by blast
  then show "emptyCell row col \<in> set buildEmptyGrid"
    by (simp only: in_buildEmptyGrid)
  show "cell_row (emptyCell row col) = row \<and> cell_col (emptyCell row col) = col"
    by (simp add: emptyCell_def)
  show "\<forall>y \<in> set buildEmptyGrid. cell_row y = row \<and> cell_col y = col \<longrightarrow> y = emptyCell row col"
  proof (intro ballI impI)
    fix y
    assume "y \<in> set buildEmptyGrid" and at: "cell_row y = row \<and> cell_col y = col"
    then have "\<exists>r k. 0 \<le> r \<and> r < GRID_ROWS \<and> 0 \<le> k \<and> k < GRID_COLS \<and> y = emptyCell r k"
      by (simp only: in_buildEmptyGrid)
    then obtain r k where "y = emptyCell r k"
      by blast
    with at show "y = emptyCell row col"
      by (simp add: emptyCell_def)
  qed
qed

text \<open>
  Claim C1, as the code has it. The claim asks that \<open>startSession\<close> fail while a session is
  active. The action has no guard: for every state, with or without an active session, it
  returns normally, puts the new session, which is active and carries the fresh id, into
  the single active slot, and leaves the history list as it was. A session that was
  active before the call is therefore replaced, and it is not added to the history. The
  slot holds one session at most, so no state has two active sessions.
\<close>

theorem startSession_replaces:
  "\<exists>session s'. startSession newId now ty dm s = Inr (session, s')
      \<and> activeSession s' = Some session
      \<and> session_id session = newId \<and> session_status session = active
      \<and> sessions s' = sessions s"
  by (simp add: startSession_def Let_def)

text \<open>
  The claim as stated fails: with the monitor session \<open>m1\<close> active, \<open>startSession\<close> returns
  the new grid session \<open>g2\<close>, and \<open>m1\<close> is neither active nor in the history afterwards.
\<close>

theorem startSession_fails_counterexample:
  "startSession ''g2'' 2000 grid None monitorState =
     Inr (gridSession\<lparr>session_id := ''g2'', startedAt := 2000\<rparr>,
          \<lparr> sessions = [],
            activeSession = Some (gridSession\<lparr>session_id := ''g2'', startedAt := 2000\<rparr>),
            isLoading = False \<rparr>)
   \<and> activeSession monitorState = Some monitorSession
   \<and> session_status monitorSession = active"
  by (simp add: startSession_def Let_def monitorState_def monitorSession_def gridSession_def)

text \<open>
  Claim C2, as the code has it. The claim asks for an \<open>OutOfBounds\<close> failure. The action
  has no bounds check: on an active grid session whose cells all lie inside the
  \<open>GRID_ROWS\<close> by \<open>GRID_COLS\<close> grid, a call with a row or column outside the grid matches no
  cell, returns normally, and leaves the store, and so every cell's status, touchCount and
  lastTouched, exactly as before. (\<open>cellsInBounds\<close> holds of the grid that \<open>startSession\<close>
  allocates and is kept by \<open>markCellStatus\<close>: lemmas \<open>cellsInBounds_buildEmptyGrid\<close> and
  \<open>cellsInBounds_markCell\<close>.)
\<close>

theorem markCellStatus_out_of_bounds:
  assumes "activeSession s = Some a" and "gridCells a = Some cells" and "cellsInBounds cells"
    and "row < 0 \<or> GRID_ROWS \<le> row \<or> col < 0 \<or> GRID_COLS \<le> col"
  shows "markCellStatus now row col st s = Inr s"
proof -
  have "\<forall>c \<in> set cells. \<not> (cell_row c = row \<and> cell_col c = col)"
    using assms(3,4) by (auto simp: cellsInBounds_def list_all_iff)
  then have "map (markCell now row col st) cells = cells"
    by (rule map_markCell_no_match)
  then show ?thesis
    using assms(1,2) by (simp add: markCellStatus_def)
qed

theorem markCellStatus_out_of_bounds_witness:
  "activeSession (store gridScreen) = Some gridSession
   \<and> gridCells gridSession = Some buildEmptyGrid
   \<and> cellsInBounds buildEmptyGrid
   \<and> GRID_ROWS \<le> 10
   \<and> markCellStatus 2000 10 0 faulty (store gridScreen) = Inr (store gridScreen)"
proof -
  have a: "activeSession (store gridScreen) = Some gridSession"
    by (simp add: gridScreen_def)
  have g: "gridCells gridSession = Some buildEmptyGrid"
    by (simp add: gridSession_def)
  have r: "GRID_ROWS \<le> 10"
    by (simp add: GRID_ROWS_def)
  show ?thesis
    using a g r cellsInBounds_buildEmptyGrid
      markCellStatus_out_of_bounds [of "store gridScreen" gridSession buildEmptyGrid 10 0 2000 faulty]
    by simp
qed

text \<open>
  The claim as stated fails: row \<open>-1\<close> is outside the grid, and the call returns normally
  instead of failing with \<open>OutOfBounds\<close>.
\<close>

theorem markCellStatus_OutOfBounds_counterexample:
  "markCellStatus 2000 (- 1) 3 ok (store gridScreen) = Inr (store gridScreen)
   \<and> markCellStatus 2000 (- 1) 3 ok (store gridScreen) \<noteq> Inl OutOfBounds"
  by (simp add: markCellStatus_def gridScreen_def gridSession_def buildEmptyGrid_def
      GRID_ROWS_def GRID_COLS_def upto.simps emptyCell_def markCell_def)

text \<open>
  Claim C3, as the code has it. With no active session \<open>endSession\<close> returns silently
  (the guard \<open>if (!activeSession) return\<close>) and changes neither the store nor the
  database; it does not fail with \<open>NoActiveSession\<close>. With an active session it marks the
  session completed, stamps \<open>endedAt\<close> with the current time, attaches the notes, saves
  the completed session to the database, puts it at the head of the history list and
  clears the active slot.
\<close>

theorem endSession_behaviour:
  "(activeSession s = None \<longrightarrow> endSession now nts db s = Inr (db, s))
   \<and> (\<forall>a. activeSession s = Some a \<longrightarrow>
         endSession now nts db s =
           Inr (saveSession (a\<lparr>session_status := completed, endedAt := Some now, session_notes := nts\<rparr>) db,
                s\<lparr>activeSession := None,
                  sessions := a\<lparr>session_status := completed, endedAt := Some now, session_notes := nts\<rparr>
                                # sessions s\<rparr>))"
  by (simp add: endSession_def Let_def)

theorem endSession_behaviour_witness:
  "activeSession initialState = None
   \<and> endSession 3000 (Some ''none'') emptyDatabase initialState = Inr (emptyDatabase, initialState)
   \<and> activeSession monitorState = Some monitorSession
   \<and> endSession 3000 (Some ''Ghost monitor: 1 phantom touch detected.'') emptyDatabase monitorState =
       Inr (\<lparr> sessions_table =
                [\<lparr> s_id = ''m1'', s_type = ghost_monitor, s_status = completed, started_at = 1000,
                   ended_at = Some 3000, s_notes = Some ''Ghost monitor: 1 phantom touch detected.'',
                   device_model = None, synced = 0 \<rparr>],
              touch_points_table =
                [\<lparr> t_id = ''p1'', t_session_id = ''m1'', t_x = 120, t_y = 300, t_timestamp = 1500,
                   t_pressure = None, is_ghost = 1 \<rparr>] \<rparr>,
            \<lparr> sessions =
                [monitorSession\<lparr>session_status := completed, endedAt := Some 3000,
                   session_notes := Some ''Ghost monitor: 1 phantom touch detected.''\<rparr>],
              activeSession = None, isLoading = False \<rparr>)"
  using endSession_behaviour [of initialState 3000 "Some ''none''" emptyDatabase]
    endSession_behaviour [of monitorState 3000 "Some ''Ghost monitor: 1 phantom touch detected.''" emptyDatabase]
  by (simp add: initialState_def monitorState_def monitorSession_def ghostPoint_def emptyDatabase_def
      saveSession_def insertOrReplace_def sessionRow_def touchPointRow_def Let_def)

text \<open>
  The claim as stated fails: with no active session the call returns normally.
\<close>

theorem endSession_NoActiveSession_counterexample:
  "endSession 4000 None emptyDatabase (initialState\<lparr>isLoading := True\<rparr>) =
     Inr (emptyDatabase, initialState\<lparr>isLoading := True\<rparr>)
   \<and> endSession 4000 None emptyDatabase (initialState\<lparr>isLoading := True\<rparr>) \<noteq> Inl NoActiveSession"
  by (simp add: endSession_def initialState_def)

lemma handleCellPress_step:
  assumes "started scr" and "\<not> finished scr"
    and "activeSession (store scr) = Some a" and "gridCells a = Some cells"
    and "findCell row col cells = Some cell"
  shows "handleCellPress now row col scr =
           Inr (scr\<lparr>store := (store scr)\<lparr>activeSession :=
                  Some (a\<lparr>gridCells := Some (map (markCell now row col (if cell_status cell = ok then faulty else ok)) cells)\<rparr>)\<rparr>\<rparr>)"
  using assms
  by (simp add: handleCellPress_def renderedGridCells_def withStore_def markCellStatus_def)

lemma findCell_after_press:
  assumes "started scr" and "\<not> finished scr"
    and "activeSession (store scr) = Some a" and "gridCells a = Some cells"
    and "findCell row col cells = Some cell"
  shows "\<exists>scr' a'. handleCellPress now row col scr = Inr scr'
           \<and> started scr' \<and> \<not> finished scr'
           \<and> activeSession (store scr') = Some a'
           \<and> gridCells a' = Some (map (markCell now row col (if cell_status cell = ok then faulty else ok)) cells)
           \<and> findCell row col (map (markCell now row col (if cell_status cell = ok then faulty else ok)) cells)
               = Some (cell\<lparr>cell_status := (if cell_status cell = ok then faulty else ok),
                              touchCount := touchCount cell + 1, lastTouched := Some now\<rparr>)"
proof -
  have coords: "cell_row cell = row \<and> cell_col cell = col"
    using assms(5) by (auto simp: findCell_def find_Some_iff)
  show ?thesis
    using assms coords handleCellPress_step [OF assms, of now]
    by (simp add: findCell_def find_map_markCell markCell_def)
qed

text \<open>
  Claim C10. On a running grid test, a tap on a cell of the grid raises its touchCount by
  one and sets its status to \<open>faulty\<close> when the status was \<open>ok\<close>, and to \<open>ok\<close> otherwise. So a
  tap on a \<open>faulty\<close> or \<open>ghost\<close> cell sets it back to \<open>ok\<close>, and the new status is \<open>faulty\<close>
  exactly when the old one was \<open>ok\<close>: \<open>faulty\<close> is not sticky.
\<close>

theorem tap_on_faulty_or_ghost_gives_ok:
  assumes "started scr" and "\<not> finished scr"
    and "activeSession (store scr) = Some a" and "gridCells a = Some cells"
    and "findCell row col cells = Some cell"
  shows "\<exists>scr' cell'. handleCellPress now row col scr = Inr scr'
           \<and> findCell row col (renderedGridCells (store scr')) = Some cell'
           \<and> touchCount cell' = touchCount cell + 1
           \<and> cell_status cell' = (if cell_status cell = ok then faulty else ok)
           \<and> (cell_status cell = faulty \<or> cell_status cell = ghost \<longrightarrow> cell_status cell' = ok)
           \<and> (cell_status cell' = faulty \<longleftrightarrow> cell_status cell = ok)"
proof -
  obtain scr' a' where
    "handleCellPress now row col scr = Inr scr'" "activeSession (store scr') = Some a'"
    "gridCells a' = Some (map (markCell now row col (if cell_status cell = ok then faulty else ok)) cells)"
    "findCell row col (map (markCell now row col (if cell_status cell = ok then faulty else ok)) cells)
       = Some (cell\<lparr>cell_status := (if cell_status cell = ok then faulty else ok),
                      touchCount := touchCount cell + 1, lastTouched := Some now\<rparr>)"
    using findCell_after_press [OF assms, of now] by blast
  then show ?thesis
    by (auto simp: renderedGridCells_def)
qed

theorem tap_on_faulty_or_ghost_gives_ok_witness:
  "started tappedScreen \<and> \<not> finished tappedScreen
   \<and> activeSession (store tappedScreen) = Some (gridSession\<lparr>gridCells := Some tappedGrid\<rparr>)
   \<and> findCell 0 0 tappedGrid =
       Some \<lparr> cell_row = 0, cell_col = 0, cell_status = faulty, touchCount = 2, lastTouched = Some 2500 \<rparr>
   \<and> (\<exists>scr' cell'. handleCellPress 3000 0 0 tappedScreen = Inr scr'
         \<and> findCell 0 0 (renderedGridCells (store scr')) = Some cell'
         \<and> touchCount cell' = 3 \<and> cell_status cell' = ok)"
proof -
  have base: "findCell 0 0 buildEmptyGrid = Some (emptyCell 0 0)"
    by (rule findCell_buildEmptyGrid) (simp_all add: GRID_ROWS_def GRID_COLS_def)
  have "findCell 0 0 tappedGrid =
      map_option (markCell 2500 0 0 faulty) (map_option (markCell 2000 0 0 ok) (findCell 0 0 buildEmptyGrid))"
    unfolding findCell_def tappedGrid_def by (simp only: find_map_markCell)
  then have f: "findCell 0 0 tappedGrid =
      Some \<lparr> cell_row = 0, cell_col = 0, cell_status = faulty, touchCount = 2, lastTouched = Some 2500 \<rparr>"
    by (simp add: base markCell_def emptyCell_def)
  have s: "started tappedScreen" "\<not> finished tappedScreen"
    "activeSession (store tappedScreen) = Some (gridSession\<lparr>gridCells := Some tappedGrid\<rparr>)"
    by (simp_all add: tappedScreen_def)
  have g: "gridCells (gridSession\<lparr>gridCells := Some tappedGrid\<rparr>) = Some tappedGrid"
    by simp
  show ?thesis
    using f s tap_on_faulty_or_ghost_gives_ok [OF s g f, of 3000]
    by auto
qed

text \<open>
  Claim C4. On a running grid test, for a cell of the grid that is \<open>untested\<close> with
  touchCount 0, the first tap leaves it \<open>ok\<close> with touchCount 1 and a second tap on the
  same cell leaves it \<open>faulty\<close> with touchCount 2. (Every in-bounds cell of a freshly
  started grid session is such a cell: lemma \<open>findCell_buildEmptyGrid\<close>.)
\<close>

theorem first_tap_ok_second_tap_faulty:
  assumes "started scr" and "\<not> finished scr"
    and "activeSession (store scr) = Some a" and "gridCells a = Some cells"
    and "findCell row col cells = Some cell"
    and "cell_status cell = untested" and "touchCount cell = 0"
  shows "\<exists>scr1 scr2 cell1 cell2.
           handleCellPress t1 row col scr = Inr scr1
           \<and> findCell row col (renderedGridCells (store scr1)) = Some cell1
           \<and> cell_status cell1 = ok \<and> touchCount cell1 = 1
           \<and> handleCellPress t2 row col scr1 = Inr scr2
           \<and> findCell row col (renderedGridCells (store scr2)) = Some cell2
           \<and> cell_status cell2 = faulty \<and> touchCount cell2 = 2"
proof -
  let ?cells1 = "map (markCell t1 row col ok) cells"
  let ?cell1 = "cell\<lparr>cell_status := ok, touchCount := 1, lastTouched := Some t1\<rparr>"
  obtain scr1 a1 where first:
    "handleCellPress t1 row col scr = Inr scr1" "started scr1" "\<not> finished scr1"
    "activeSession (store scr1) = Some a1" "gridCells a1 = Some ?cells1"
    "findCell row col ?cells1 = Some ?cell1"
    using findCell_after_press [OF assms(1-5), of t1] assms(6,7) by auto
  let ?cells2 = "map (markCell t2 row col faulty) ?cells1"
  let ?cell2 = "?cell1\<lparr>cell_status := faulty, touchCount := 2, lastTouched := Some t2\<rparr>"
  obtain scr2 a2 where second:
    "handleCellPress t2 row col scr1 = Inr scr2"
    "activeSession (store scr2) = Some a2" "gridCells a2 = Some ?cells2"
    "findCell row col ?cells2 = Some ?cell2"
    using findCell_after_press [OF first(2-6), of t2] by auto
  have "findCell row col (renderedGridCells (store scr1)) = Some ?cell1"
    using first by (simp add: renderedGridCells_def)
  moreover have "findCell row col (renderedGridCells (store scr2)) = Some ?cell2"
    using second by (simp add: renderedGridCells_def)
  ultimately show ?thesis
    using first(1) second(1) by simp
qed

theorem first_tap_ok_second_tap_faulty_witness:
  "findCell 0 0 buildEmptyGrid = Some (emptyCell 0 0)
   \<and> cell_status (emptyCell 0 0) = untested \<and> touchCount (emptyCell 0 0) = 0
   \<and> (\<exists>scr1 scr2 cell1 cell2.
           handleCellPress 2000 0 0 gridScreen = Inr scr1
           \<and> findCell 0 0 (renderedGridCells (store scr1)) = Some cell1
           \<and> cell_status cell1 = ok \<and> touchCount cell1 = 1
           \<and> handleCellPress 2500 0 0 scr1 = Inr scr2
           \<and> findCell 0 0 (renderedGridCells (store scr2)) = Some cell2
           \<and> cell_status cell2 = faulty \<and> touchCount cell2 = 2)"
proof -
  have f: "findCell 0 0 buildEmptyGrid = Some (emptyCell 0 0)"
    by (rule findCell_buildEmptyGrid) (simp_all add: GRID_ROWS_def GRID_COLS_def)
  have s: "started gridScreen" "\<not> finished gridScreen"
    "activeSession (store gridScreen) = Some gridSession"
    by (simp_all add: gridScreen_def)
  have g: "gridCells gridSession = Some buildEmptyGrid"
    by (simp add: gridSession_def)
  have u: "cell_status (emptyCell 0 0) = untested" "touchCount (emptyCell 0 0) = 0"
    by (simp_all add: emptyCell_def)
  show ?thesis
    using f u first_tap_ok_second_tap_faulty [OF s g f u, of 2000 2500]
    by simp
qed

section \<open>Properties of the database\<close>










text \<open>
  Claim C9. \<open>saveSession\<close> writes the same database whatever the session's \<open>gridCells\<close> and
  \<open>faultyAreas\<close> are, and every session that \<open>getSessionById\<close> or \<open>getSessions\<close> returns has
  no \<open>gridCells\<close> and an empty \<open>faultyAreas\<close> list.
\<close>

theorem persisted_session_has_no_grid_no_faulty_areas:
  "saveSession (session\<lparr>gridCells := g, faultyAreas := f\<rparr>) db = saveSession session db
   \<and> (\<forall>s. getSessionById ident db = Some s \<longrightarrow> gridCells s = None \<and> faultyAreas s = Some [])
   \<and> (\<forall>s \<in> set (getSessions db). gridCells s = None \<and> faultyAreas s = Some [])"
proof -
  have "saveSession (session\<lparr>gridCells := g, faultyAreas := f\<rparr>) db = saveSession session db"
    by (simp add: saveSession_def sessionRow_def Let_def)
  moreover have "gridCells s = None \<and> faultyAreas s = Some []" if "getSessionById ident db = Some s" for s
    using that by (auto simp: getSessionById_def Let_def split: option.splits)
  moreover have "\<forall>s \<in> set (getSessions db). gridCells s = None \<and> faultyAreas s = Some []"
    by (auto simp: getSessions_def)
  ultimately show ?thesis by blast
qed

theorem persisted_session_has_no_grid_no_faulty_areas_witness:
  "gridCells finishedGridSession = Some tappedGrid
   \<and> getSessionById ''g1'' (saveSession finishedGridSession emptyDatabase) =
       Some (finishedGridSession\<lparr>gridCells := None, faultyAreas := Some []\<rparr>)
   \<and> gridCells (finishedGridSession\<lparr>gridCells := None, faultyAreas := Some []\<rparr>) = None
   \<and> faultyAreas (finishedGridSession\<lparr>gridCells := None, faultyAreas := Some []\<rparr>) = Some []
   \<and> getSessions (saveSession finishedGridSession emptyDatabase) =
       [finishedGridSession\<lparr>gridCells := None, faultyAreas := Some []\<rparr>]
   \<and> saveSession finishedGridSession emptyDatabase =
       saveSession (finishedGridSession\<lparr>gridCells := None, faultyAreas := None\<rparr>) emptyDatabase"
proof -
  have g: "getSessionById ''g1'' (saveSession finishedGridSession emptyDatabase) =
       Some (finishedGridSession\<lparr>gridCells := None, faultyAreas := Some []\<rparr>)"
    by (simp add: finishedGridSession_def gridSession_def emptyDatabase_def
        getSessionById_def saveSession_def insertOrReplace_def sessionRow_def Let_def)
  have l: "getSessions (saveSession finishedGridSession emptyDatabase) =
       [finishedGridSession\<lparr>gridCells := None, faultyAreas := Some []\<rparr>]"
    by (simp add: finishedGridSession_def gridSession_def emptyDatabase_def
        getSessions_def saveSession_def insertOrReplace_def sessionRow_def Let_def)
  have a: "saveSession (finishedGridSession\<lparr>gridCells := None, faultyAreas := None\<rparr>) emptyDatabase =
       saveSession finishedGridSession emptyDatabase"
    using persisted_session_has_no_grid_no_faulty_areas
        [where session = finishedGridSession and g = None and f = None
           and db = emptyDatabase and ident = "''g1''"]
    by blast
  have c: "gridCells finishedGridSession = Some tappedGrid"
    by (simp add: finishedGridSession_def)
  have b: "gridCells (finishedGridSession\<lparr>gridCells := None, faultyAreas := Some []\<rparr>) = None
      \<and> faultyAreas (finishedGridSession\<lparr>gridCells := None, faultyAreas := Some []\<rparr>) = Some []"
    using g persisted_session_has_no_grid_no_faulty_areas
        [where session = finishedGridSession and g = None and f = None
           and db = "saveSession finishedGridSession emptyDatabase" and ident = "''g1''"]
    by blast
  show ?thesis
    using g l a b c by simp
qed

section \<open>Properties of the heatmap aggregation\<close>

subsection \<open>The grid keeps its dimensions\<close>







subsection \<open>The emitted cells\<close>























end
